theory Spec2Isabelle
  imports Main "HOL-Library.Word" "HOL-Library.Sublist"
begin

section \<open>Bytes, hex strings and paths\<close>

text \<open>
  A Node \<open>Buffer\<close> is a list of bytes. \<open>buf.toString('hex')\<close> writes two lower-case hex
  digits per byte; \<open>Buffer.from(s, 'hex')\<close> reads pairs of hex digits (either case) and
  stops at the first pair that is not hex, dropping a trailing odd digit.
\<close>

type_synonym byte = "8 word"
type_synonym bytes = "byte list"

definition hex_digit :: "nat \<Rightarrow> char" where
  "hex_digit n = ''0123456789abcdef'' ! n"

definition hex_value :: "char \<Rightarrow> nat option" where
  "hex_value c =
     (let n = (of_char c :: nat) in
      if 48 \<le> n \<and> n \<le> 57 then Some (n - 48)
      else if 97 \<le> n \<and> n \<le> 102 then Some (n - 87)
      else if 65 \<le> n \<and> n \<le> 70 then Some (n - 55)
      else None)"

fun toHex :: "bytes \<Rightarrow> string" where
  "toHex [] = []"
| "toHex (b # bs) = hex_digit (unat b div 16) # hex_digit (unat b mod 16) # toHex bs"

fun fromHex :: "string \<Rightarrow> bytes" where
  "fromHex (a # b # cs) =
     (case hex_value a of
        None \<Rightarrow> []
      | Some h \<Rightarrow> (case hex_value b of
                    None \<Rightarrow> []
                  | Some l \<Rightarrow> word_of_nat (16 * h + l) # fromHex cs))"
| "fromHex _ = []"

text \<open>
  \<open>path.join\<close> is concatenation with a separator; this agrees with Node for the wallet
  names the commands pass (no separator and no dot segment inside a name).
\<close>

definition join :: "string \<Rightarrow> string \<Rightarrow> string" where
  "join a b = a @ ''/'' @ b"

definition getKeystoreDir :: "string \<Rightarrow> string" where
  "getKeystoreDir walletDir = join walletDir ''keystores''"

definition getSessionDir :: "string \<Rightarrow> string" where
  "getSessionDir walletDir = join walletDir ''sessions''"

definition getLockoutDir :: "string \<Rightarrow> string" where
  "getLockoutDir walletDir = join walletDir ''lockout''"

definition getKeystorePath :: "string \<Rightarrow> string \<Rightarrow> string" where
  "getKeystorePath walletDir nm = join (getKeystoreDir walletDir) (nm @ ''.json'')"

definition getSessionPath :: "string \<Rightarrow> string \<Rightarrow> string" where
  "getSessionPath walletDir nm = join (getSessionDir walletDir) (nm @ ''.json'')"

definition getTokenFilePath :: "string \<Rightarrow> string \<Rightarrow> string" where
  "getTokenFilePath walletDir nm = join (getSessionDir walletDir) (nm @ ''.token'')"

definition getLockoutPath :: "string \<Rightarrow> string \<Rightarrow> string" where
  "getLockoutPath walletDir nm = join (getLockoutDir walletDir) (nm @ ''.json'')"

text \<open>\<open>String.prototype.includes\<close> and \<open>startsWith\<close>.\<close>

fun str_includes :: "string \<Rightarrow> string \<Rightarrow> bool" where
  "str_includes [] sub = (sub = [])"
| "str_includes (c # cs) sub = (prefix sub (c # cs) \<or> str_includes cs sub)"

definition startsWith :: "string \<Rightarrow> string \<Rightarrow> bool" where
  "startsWith s pre = prefix pre s"


section \<open>Errors\<close>

text \<open>
  A \<open>WalletError\<close> carries a stable code (its human-readable message is left out); any
  other thrown \<open>Error\<close> is kept with its message, which \<open>decryptKeystore\<close> inspects.
\<close>

datatype ErrorCode =
    ERR_WALLET_EXISTS
  | ERR_WALLET_NOT_FOUND
  | ERR_WRONG_PASSWORD
  | ERR_SESSION_NOT_FOUND
  | ERR_SESSION_EXPIRED
  | ERR_SESSION_INVALID
  | ERR_WALLET_LOCKED

datatype error = WalletError ErrorCode | Error string


section \<open>Library primitives\<close>

text \<open>
  The cryptographic and codec routines come from Node and the argon2 package, not from
  this repository, so they are parameters of the model. \<open>aes_gcm_decrypt\<close> returns the
  message of the \<open>Error\<close> Node throws, or the plaintext. Random draws and clock readings
  are explicit arguments of the operations that make them.
\<close>

record primitives =
  argon2id :: "string \<Rightarrow> bytes \<Rightarrow> nat \<Rightarrow> nat \<Rightarrow> nat \<Rightarrow> bytes"
  aes_gcm_encrypt :: "bytes \<Rightarrow> bytes \<Rightarrow> bytes \<Rightarrow> bytes \<times> bytes"
  aes_gcm_decrypt :: "bytes \<Rightarrow> bytes \<Rightarrow> bytes \<Rightarrow> bytes \<Rightarrow> string + bytes"
  hkdf_sha256 :: "bytes \<Rightarrow> bytes \<Rightarrow> string \<Rightarrow> nat \<Rightarrow> bytes"
  hmac_sha256 :: "bytes \<Rightarrow> bytes \<Rightarrow> bytes"
  utf8_bytes :: "string \<Rightarrow> bytes"
  utf8_string :: "bytes \<Rightarrow> string"
  base64url :: "bytes \<Rightarrow> string"
  from_base64url :: "string \<Rightarrow> bytes"
  ethereum_address :: "string \<Rightarrow> nat \<Rightarrow> string + string"
  solana_address :: "string \<Rightarrow> nat \<Rightarrow> string + string"

text \<open>The message of the \<open>Error\<close> that \<open>decipher.final()\<close> throws when the tag does not verify.\<close>

definition gcm_auth_failure :: string where
  "gcm_auth_failure = ''Unsupported state or unable to authenticate data''"


section \<open>Encryption helpers (security/encryption.ts)\<close>

record KdfParams =
  kdf_algorithm :: string
  time_cost :: nat
  memory_cost :: nat
  parallelism :: nat
  salt :: string

record CipherParams =
  algorithm :: string
  iv :: string
  auth_tag :: string
  ciphertext :: string

definition DEFAULT_time_cost :: nat where "DEFAULT_time_cost = 6"
definition DEFAULT_memory_cost :: nat where "DEFAULT_memory_cost = 65536"
definition DEFAULT_parallelism :: nat where "DEFAULT_parallelism = 4"

text \<open>
  \<open>deriveKeyFromPassword(password, salt?, params?)\<close>: \<open>rnd\<close> is the 32 random bytes drawn
  when no salt is passed; absent cost parameters fall back to the defaults. The
  \<open>clearBuffer\<close> calls of the source zero buffers whose contents have already been copied
  or rendered, so they change no result and are left out.
\<close>

definition deriveKeyFromPassword ::
  "primitives \<Rightarrow> bytes \<Rightarrow> string \<Rightarrow> bytes option \<Rightarrow> (nat \<times> nat \<times> nat) option
     \<Rightarrow> bytes \<times> KdfParams" where
  "deriveKeyFromPassword P rnd password salt_opt params =
     (let actualSalt = (case salt_opt of None \<Rightarrow> rnd | Some s \<Rightarrow> s);
          timeCost = (case params of None \<Rightarrow> DEFAULT_time_cost | Some (t, m, p) \<Rightarrow> t);
          memoryCost = (case params of None \<Rightarrow> DEFAULT_memory_cost | Some (t, m, p) \<Rightarrow> m);
          par = (case params of None \<Rightarrow> DEFAULT_parallelism | Some (t, m, p) \<Rightarrow> p);
          key = argon2id P password actualSalt timeCost memoryCost par
      in (key,
          \<lparr>kdf_algorithm = ''argon2id'', time_cost = timeCost, memory_cost = memoryCost,
           parallelism = par, salt = toHex actualSalt\<rparr>))"

definition encryptAesGcm :: "primitives \<Rightarrow> bytes \<Rightarrow> bytes \<Rightarrow> bytes \<Rightarrow> CipherParams" where
  "encryptAesGcm P rnd_iv plaintext key =
     (let (encrypted, authTag) = aes_gcm_encrypt P key rnd_iv plaintext
      in \<lparr>algorithm = ''aes-256-gcm'', iv = toHex rnd_iv, auth_tag = toHex authTag,
          ciphertext = toHex encrypted\<rparr>)"

definition decryptAesGcm :: "primitives \<Rightarrow> CipherParams \<Rightarrow> bytes \<Rightarrow> error + bytes" where
  "decryptAesGcm P cp key =
     (case aes_gcm_decrypt P key (fromHex (iv cp)) (fromHex (auth_tag cp))
             (fromHex (ciphertext cp)) of
        Inl msg \<Rightarrow> Inl (Error msg)
      | Inr decrypted \<Rightarrow> Inr decrypted)"

definition encryptMnemonic ::
  "primitives \<Rightarrow> bytes \<Rightarrow> bytes \<Rightarrow> string \<Rightarrow> string \<Rightarrow> KdfParams \<times> CipherParams" where
  "encryptMnemonic P rnd_salt rnd_iv mnemonic password =
     (let (key, kdfParams) = deriveKeyFromPassword P rnd_salt password None None;
          cipherParams = encryptAesGcm P rnd_iv (utf8_bytes P mnemonic) key
      in (kdfParams, cipherParams))"

definition decryptMnemonic ::
  "primitives \<Rightarrow> KdfParams \<Rightarrow> CipherParams \<Rightarrow> string \<Rightarrow> error + string" where
  "decryptMnemonic P kdfParams cipherParams password =
     (let (key, _) = deriveKeyFromPassword P [] password (Some (fromHex (salt kdfParams)))
                       (Some (time_cost kdfParams, memory_cost kdfParams, parallelism kdfParams))
      in case decryptAesGcm P cipherParams key of
           Inl e \<Rightarrow> Inl e
         | Inr plaintext \<Rightarrow> Inr (utf8_string P plaintext))"

definition deriveHkdfKey :: "primitives \<Rightarrow> bytes \<Rightarrow> bytes \<Rightarrow> string \<Rightarrow> bytes" where
  "deriveHkdfKey P ikm slt info = hkdf_sha256 P ikm slt info 32"

definition hmacSha256 :: "primitives \<Rightarrow> bytes \<Rightarrow> bytes \<Rightarrow> bytes" where
  "hmacSha256 P key dat = hmac_sha256 P key dat"


section \<open>Persisted files\<close>

text \<open>
  The wallet directory holds keystore, session, token and lockout files, each kind in
  its own place; a file is kept as the record its JSON text denotes, under its path.
  Timestamps are milliseconds since the epoch (the ISO-8601 text \<open>toISOString\<close> writes and
  \<open>new Date\<close> reads back).
\<close>

record KeystoreFile =
  ks_version :: nat
  ks_name :: string
  ks_created_at :: int
  kdf :: KdfParams
  ks_cipher :: CipherParams
  addresses_ethereum :: "string list"
  addresses_solana :: "string list"
  derivation_ethereum_path :: string
  derivation_solana_path :: string

record SessionFile =
  version :: nat
  wallet_name :: string
  token_id :: string
  hmac :: string
  hkdf_salt :: string
  cipher :: CipherParams
  created_at :: int
  expires_at :: int

record LockoutRecord =
  failed_attempts :: nat
  last_failed_at :: "int option"
  locked_until :: "int option"

record disk =
  keystore_files :: "string \<rightharpoonup> KeystoreFile"
  session_files :: "string \<rightharpoonup> SessionFile"
  token_files :: "string \<rightharpoonup> string"
  lockout_files :: "string \<rightharpoonup> LockoutRecord"

definition fileExists :: "(string \<rightharpoonup> 'a) \<Rightarrow> string \<Rightarrow> bool" where
  "fileExists files p = (files p \<noteq> None)"

definition unlink :: "(string \<rightharpoonup> 'a) \<Rightarrow> string \<Rightarrow> (string \<rightharpoonup> 'a)" where
  "unlink files p = files(p := None)"

definition writeFile :: "(string \<rightharpoonup> 'a) \<Rightarrow> string \<Rightarrow> 'a \<Rightarrow> (string \<rightharpoonup> 'a)" where
  "writeFile files p v = files(p \<mapsto> v)"


section \<open>Keystore (core/keystore.ts, core/mnemonic.ts)\<close>

definition deriveAddresses :: "primitives \<Rightarrow> string \<Rightarrow> nat \<Rightarrow> error + string \<times> string" where
  "deriveAddresses P mnemonic accountIndex =
     (case ethereum_address P mnemonic accountIndex of
        Inl msg \<Rightarrow> Inl (Error msg)
      | Inr eth \<Rightarrow> (case solana_address P mnemonic accountIndex of
                      Inl msg \<Rightarrow> Inl (Error msg)
                    | Inr sol \<Rightarrow> Inr (eth, sol)))"

definition createKeystore ::
  "primitives \<Rightarrow> bytes \<Rightarrow> bytes \<Rightarrow> int \<Rightarrow> disk \<Rightarrow> string \<Rightarrow> string \<Rightarrow> string \<Rightarrow> string
     \<Rightarrow> (error + KeystoreFile) \<times> disk" where
  "createKeystore P rnd_salt rnd_iv now d walletDir nm mnemonic password =
     (let keystorePath = getKeystorePath walletDir nm in
      if fileExists (keystore_files d) keystorePath
      then (Inl (WalletError ERR_WALLET_EXISTS), d)
      else
        let (kdfParams, cipherParams) = encryptMnemonic P rnd_salt rnd_iv mnemonic password in
        case deriveAddresses P mnemonic 0 of
          Inl e \<Rightarrow> (Inl e, d)
        | Inr (eth, sol) \<Rightarrow>
            let keystore =
                  \<lparr>ks_version = 1, ks_name = nm, ks_created_at = now, kdf = kdfParams,
                   ks_cipher = cipherParams, addresses_ethereum = [eth],
                   addresses_solana = [sol],
                   derivation_ethereum_path = ''m/44'/60'/0'/0/{i}'',
                   derivation_solana_path = ''m/44'/501'/{i}'/0'' @ [CHR 0x27]\<rparr>
            in (Inr keystore,
                d\<lparr>keystore_files := writeFile (keystore_files d) keystorePath keystore\<rparr>))"

definition readKeystore :: "disk \<Rightarrow> string \<Rightarrow> string \<Rightarrow> error + KeystoreFile" where
  "readKeystore d walletDir nm =
     (let keystorePath = getKeystorePath walletDir nm in
      case keystore_files d keystorePath of
        None \<Rightarrow> Inl (WalletError ERR_WALLET_NOT_FOUND)
      | Some keystore \<Rightarrow> Inr keystore)"

text \<open>
  The \<open>catch\<close> of \<open>decryptKeystore\<close> turns an \<open>Error\<close> whose message contains
  \<open>Unsupported state\<close> or \<open>auth\<close> into the wrong-password outcome and rethrows anything else.
\<close>

definition decryptKeystore :: "primitives \<Rightarrow> disk \<Rightarrow> string \<Rightarrow> string \<Rightarrow> string \<Rightarrow> error + string" where
  "decryptKeystore P d walletDir nm password =
     (case readKeystore d walletDir nm of
        Inl e \<Rightarrow> Inl e
      | Inr keystore \<Rightarrow>
          (case decryptMnemonic P (kdf keystore) (ks_cipher keystore) password of
             Inr mnemonic \<Rightarrow> Inr mnemonic
           | Inl (Error msg) \<Rightarrow>
               if str_includes msg ''Unsupported state'' \<or> str_includes msg ''auth''
               then Inl (WalletError ERR_WRONG_PASSWORD)
               else Inl (Error msg)
           | Inl e \<Rightarrow> Inl e))"


section \<open>Session tokens (core/session.ts)\<close>

definition TOKEN_PREFIX :: string where "TOKEN_PREFIX = ''wlt_''"
definition TOKEN_ID_SIZE :: nat where "TOKEN_ID_SIZE = 16"
definition TOKEN_SECRET_SIZE :: nat where "TOKEN_SECRET_SIZE = 32"
definition HKDF_INFO :: string where "HKDF_INFO = ''wallet-cli-session-key''"
definition DEFAULT_DURATION :: int where "DEFAULT_DURATION = 3600"
definition MAX_DURATION :: int where "MAX_DURATION = 86400"

definition encodeToken :: "primitives \<Rightarrow> bytes \<Rightarrow> bytes \<Rightarrow> string" where
  "encodeToken P tokenId tokenSecret =
     (let combined = tokenId @ tokenSecret;
          encoded = base64url P combined
      in TOKEN_PREFIX @ encoded)"

definition decodeToken :: "primitives \<Rightarrow> string \<Rightarrow> error + bytes \<times> bytes" where
  "decodeToken P token =
     (if \<not> startsWith token TOKEN_PREFIX then Inl (WalletError ERR_SESSION_INVALID)
      else
        let encoded = drop (length TOKEN_PREFIX) token;
            combined = from_base64url P encoded
        in if length combined \<noteq> TOKEN_ID_SIZE + TOKEN_SECRET_SIZE
           then Inl (WalletError ERR_SESSION_INVALID)
           else Inr (take TOKEN_ID_SIZE combined, drop TOKEN_ID_SIZE combined))"

definition revokeSession :: "disk \<Rightarrow> string \<Rightarrow> string \<Rightarrow> disk" where
  "revokeSession d walletDir walletName =
     (let sessionPath = getSessionPath walletDir walletName;
          tokenPath = getTokenFilePath walletDir walletName;
          d1 = (if fileExists (session_files d) sessionPath
                then d\<lparr>session_files := unlink (session_files d) sessionPath\<rparr> else d);
          d2 = (if fileExists (token_files d1) tokenPath
                then d1\<lparr>token_files := unlink (token_files d1) tokenPath\<rparr> else d1)
      in d2)"

text \<open>
  \<open>createSession\<close>: \<open>tokenId\<close>, \<open>tokenSecret\<close>, \<open>rnd_salt\<close> and \<open>rnd_iv\<close> are the draws of
  \<open>secureRandom(16)\<close>, \<open>secureRandom(32)\<close>, \<open>secureRandom(32)\<close> and \<open>randomBytes(12)\<close>;
  \<open>now\<close> is the single \<open>new Date()\<close>; \<open>duration\<close> is in seconds and may be absent.
\<close>

definition createSession ::
  "primitives \<Rightarrow> bytes \<Rightarrow> bytes \<Rightarrow> bytes \<Rightarrow> bytes \<Rightarrow> int \<Rightarrow> disk \<Rightarrow> string \<Rightarrow> string \<Rightarrow> string
     \<Rightarrow> int option \<Rightarrow> string \<times> disk" where
  "createSession P tokenId tokenSecret rnd_salt rnd_iv now d walletDir walletName mnemonic duration =
     (let actualDuration =
            min (case duration of None \<Rightarrow> DEFAULT_DURATION | Some x \<Rightarrow> x) MAX_DURATION;
          sessionKey = deriveHkdfKey P tokenSecret rnd_salt HKDF_INFO;
          mnemonicBuf = utf8_bytes P mnemonic;
          cipherParams = encryptAesGcm P rnd_iv mnemonicBuf sessionKey;
          mac = hmacSha256 P tokenSecret tokenId;
          expiresAt = now + actualDuration * 1000;
          sessionFile =
            \<lparr>version = 1, wallet_name = walletName, token_id = toHex tokenId,
             hmac = toHex mac, hkdf_salt = toHex rnd_salt, cipher = cipherParams,
             created_at = now, expires_at = expiresAt\<rparr>;
          sessionPath = getSessionPath walletDir walletName;
          d1 = d\<lparr>session_files := writeFile (session_files d) sessionPath sessionFile\<rparr>;
          token = encodeToken P tokenId tokenSecret;
          tokenPath = getTokenFilePath walletDir walletName;
          d2 = d1\<lparr>token_files := writeFile (token_files d1) tokenPath token\<rparr>
      in (token, d2))"

definition validateSession ::
  "primitives \<Rightarrow> int \<Rightarrow> disk \<Rightarrow> string \<Rightarrow> string \<Rightarrow> string \<Rightarrow> (error + string) \<times> disk" where
  "validateSession P now d walletDir walletName token =
     (let sessionPath = getSessionPath walletDir walletName in
      case session_files d sessionPath of
        None \<Rightarrow> (Inl (WalletError ERR_SESSION_NOT_FOUND), d)
      | Some sessionData \<Rightarrow>
          if now > expires_at sessionData
          then (Inl (WalletError ERR_SESSION_EXPIRED), revokeSession d walletDir walletName)
          else
            (case decodeToken P token of
               Inl e \<Rightarrow> (Inl e, d)
             | Inr (tokenId, tokenSecret) \<Rightarrow>
                 if toHex tokenId \<noteq> token_id sessionData
                 then (Inl (WalletError ERR_SESSION_INVALID), d)
                 else
                   let expectedHmac = hmacSha256 P tokenSecret tokenId in
                   if toHex expectedHmac \<noteq> hmac sessionData
                   then (Inl (WalletError ERR_SESSION_INVALID), d)
                   else
                     let slt = fromHex (hkdf_salt sessionData);
                         sessionKey = deriveHkdfKey P tokenSecret slt HKDF_INFO
                     in (case decryptAesGcm P (cipher sessionData) sessionKey of
                           Inl e \<Rightarrow> (Inl e, d)
                         | Inr mnemonicBuf \<Rightarrow> (Inr (utf8_string P mnemonicBuf), d))))"


section \<open>Lockout guard (security/lockout.ts)\<close>

definition MAX_FAILED_ATTEMPTS :: nat where "MAX_FAILED_ATTEMPTS = 5"
definition BASE_DELAY_MS :: int where "BASE_DELAY_MS = 1000"
definition LOCKOUT_DURATION_MS :: int where "LOCKOUT_DURATION_MS = 15 * 60 * 1000"

definition readLockoutRecord :: "disk \<Rightarrow> string \<Rightarrow> string \<Rightarrow> LockoutRecord" where
  "readLockoutRecord d walletDir walletName =
     (case lockout_files d (getLockoutPath walletDir walletName) of
        None \<Rightarrow> \<lparr>failed_attempts = 0, last_failed_at = None, locked_until = None\<rparr>
      | Some r \<Rightarrow> r)"

definition writeLockoutRecord :: "disk \<Rightarrow> string \<Rightarrow> string \<Rightarrow> LockoutRecord \<Rightarrow> disk" where
  "writeLockoutRecord d walletDir walletName r =
     d\<lparr>lockout_files := writeFile (lockout_files d) (getLockoutPath walletDir walletName) r\<rparr>"

text \<open>
  \<open>checkLockout\<close> reads the clock once in the lock branch (\<open>now1\<close>) and once in the
  backoff branch (\<open>now2\<close>). The inner \<open>case\<close> is the \<open>if (record.locked_until)\<close> block: it
  throws while the lock runs, and resets the record and writes it back once the lock has
  run out. The rest is the backoff block, on the record as the first block left it.
\<close>

definition checkLockout ::
  "int \<Rightarrow> int \<Rightarrow> disk \<Rightarrow> string \<Rightarrow> string \<Rightarrow> (error + LockoutRecord) \<times> disk" where
  "checkLockout now1 now2 d walletDir walletName =
     (let r0 = readLockoutRecord d walletDir walletName in
      case (case locked_until r0 of
              None \<Rightarrow> Inr (r0, d)
            | Some lockedUntil \<Rightarrow>
                if now1 < lockedUntil then Inl (WalletError ERR_WALLET_LOCKED)
                else
                  let r1 = r0\<lparr>failed_attempts := 0, last_failed_at := None,
                              locked_until := None\<rparr>
                  in Inr (r1, writeLockoutRecord d walletDir walletName r1)) of
        Inl e \<Rightarrow> (Inl e, d)
      | Inr (r, d') \<Rightarrow>
          if failed_attempts r > 0
          then
            (case last_failed_at r of
               None \<Rightarrow> (Inr r, d')
             | Some lastFailed \<Rightarrow>
                 let backoffMs = BASE_DELAY_MS * 2 ^ (failed_attempts r - 1);
                     earliestRetry = lastFailed + backoffMs
                 in if now2 < earliestRetry then (Inl (WalletError ERR_WALLET_LOCKED), d')
                    else (Inr r, d'))
          else (Inr r, d'))"

text \<open>
  \<open>recordFailedAttempt\<close> reads the clock for \<open>last_failed_at\<close> (\<open>t_fail\<close>) and again for the
  lock (\<open>t_lock\<close>); the record it is given is the one \<open>checkLockout\<close> returned.
\<close>

definition recordFailedAttempt ::
  "int \<Rightarrow> int \<Rightarrow> disk \<Rightarrow> string \<Rightarrow> string \<Rightarrow> LockoutRecord \<Rightarrow> disk" where
  "recordFailedAttempt t_fail t_lock d walletDir walletName r =
     (let r1 = r\<lparr>failed_attempts := failed_attempts r + 1\<rparr>;
          r2 = r1\<lparr>last_failed_at := Some t_fail\<rparr>;
          r3 = (if failed_attempts r2 \<ge> MAX_FAILED_ATTEMPTS
                then r2\<lparr>locked_until := Some (t_lock + LOCKOUT_DURATION_MS)\<rparr> else r2)
      in writeLockoutRecord d walletDir walletName r3)"

definition recordSuccess :: "disk \<Rightarrow> string \<Rightarrow> string \<Rightarrow> disk" where
  "recordSuccess d walletDir walletName =
     (let p = getLockoutPath walletDir walletName in
      if fileExists (lockout_files d) p
      then d\<lparr>lockout_files := unlink (lockout_files d) p\<rparr> else d)"


section \<open>Assumptions on the primitives\<close>

text \<open>
  What the repository relies on from the libraries, stated on the parameters: decryption
  under the sealing key returns the plaintext; decryption under any other key fails tag
  verification (the symbolic reading of an AEAD); distinct passwords give distinct argon2
  keys under one salt; base64url decoding inverts encoding.
\<close>

definition aead_correct :: "primitives \<Rightarrow> bool" where
  "aead_correct P \<longleftrightarrow>
     (\<forall>key nonce pt. case aes_gcm_encrypt P key nonce pt of
        (ct, tag) \<Rightarrow> aes_gcm_decrypt P key nonce tag ct = Inr pt)"



definition base64url_roundtrip :: "primitives \<Rightarrow> bool" where
  "base64url_roundtrip P \<longleftrightarrow> (\<forall>bs. from_base64url P (base64url P bs) = bs)"

text \<open>
  A small symbolic instance of the primitives (keys and tags are concatenations, the
  transport codec is hex). It meets the assumptions above and serves to run the
  operations on concrete inputs.
\<close>

definition model_primitives :: primitives where
  "model_primitives =
     \<lparr>argon2id = (\<lambda>pw slt t m p. map (\<lambda>c. word_of_nat (of_char c)) pw @ slt),
      aes_gcm_encrypt = (\<lambda>key nonce pt. (pt, key @ nonce @ pt)),
      aes_gcm_decrypt = (\<lambda>key nonce tag ct.
         if tag = key @ nonce @ ct then Inr ct else Inl gcm_auth_failure),
      hkdf_sha256 = (\<lambda>ikm slt info n. ikm @ slt),
      hmac_sha256 = (\<lambda>key dat. key @ dat),
      utf8_bytes = map (\<lambda>c. word_of_nat (of_char c)),
      utf8_string = map (\<lambda>b. char_of (unat b)),
      base64url = toHex,
      from_base64url = fromHex,
      ethereum_address = (\<lambda>m i. Inr ''0x00''),
      solana_address = (\<lambda>m i. Inr ''1111'')\<rparr>"

definition empty_disk :: disk where
  "empty_disk = \<lparr>keystore_files = Map.empty, session_files = Map.empty,
                  token_files = Map.empty, lockout_files = Map.empty\<rparr>"


section \<open>Reachable lockout files\<close>

text \<open>
  The lockout files the guard can produce under one wallet directory: none at first; then
  any \<open>checkLockout\<close>; a \<open>recordFailedAttempt\<close> on the record the preceding \<open>checkLockout\<close>
  returned (the order of the unlock command); any \<open>recordSuccess\<close>; and any step that
  leaves the lockout files alone (keystore and session operations).
\<close>

inductive lockout_reachable :: "string \<Rightarrow> disk \<Rightarrow> bool" for walletDir :: string where
  fresh: "lockout_files d = Map.empty \<Longrightarrow> lockout_reachable walletDir d"
| checked: "lockout_reachable walletDir d \<Longrightarrow> checkLockout now1 now2 d walletDir nm = (res, d')
     \<Longrightarrow> lockout_reachable walletDir d'"
| failed: "lockout_reachable walletDir d \<Longrightarrow> checkLockout now1 now2 d walletDir nm = (Inr r, d')
     \<Longrightarrow> lockout_reachable walletDir (recordFailedAttempt t_fail t_lock d' walletDir nm r)"
| succeeded: "lockout_reachable walletDir d \<Longrightarrow> lockout_reachable walletDir (recordSuccess d walletDir nm)"
| other: "lockout_reachable walletDir d \<Longrightarrow> lockout_files d' = lockout_files d
     \<Longrightarrow> lockout_reachable walletDir d'"

definition no_active_lock :: "int \<Rightarrow> LockoutRecord \<Rightarrow> bool" where
  "no_active_lock now r = (case locked_until r of None \<Rightarrow> True | Some u \<Rightarrow> \<not> now < u)"


text \<open>
  The shape of a lockout record that the invariant of the guard speaks about: a lock
  timestamp only with a counter at the threshold, a positive counter only with a time of
  last failure.
\<close>

definition lockout_wf :: "LockoutRecord \<Rightarrow> bool" where
  "lockout_wf r \<longleftrightarrow>
     (locked_until r \<noteq> None \<longrightarrow> failed_attempts r \<ge> MAX_FAILED_ATTEMPTS)
     \<and> (failed_attempts r > 0 \<longrightarrow> last_failed_at r \<noteq> None)"

definition lockout_inv :: "disk \<Rightarrow> bool" where
  "lockout_inv d \<longleftrightarrow> (\<forall>p r. lockout_files d p = Some r \<longrightarrow> lockout_wf r)"


section \<open>Example runs\<close>

text \<open>
  Concrete disks for evaluating the operations: a wallet directory \<open>w\<close> where a session
  was issued at time 0 for 60 seconds and then a second one for the same wallet, one
  with a keystore, and one with a recorded failure.
\<close>

definition example_earlier :: "string \<times> disk" where
  "example_earlier =
     createSession model_primitives (replicate 16 9) (replicate 32 8) [5] [6] 0 empty_disk
       ''w'' ''default'' ''abandon about'' (Some 60)"

definition example_session :: "string \<times> disk" where
  "example_session =
     createSession model_primitives (replicate 16 1) (replicate 32 2) [3] [4] 0
       (snd example_earlier) ''w'' ''default'' ''abandon about'' (Some 60)"


definition example_lockout_disk :: disk where
  "example_lockout_disk =
     recordFailedAttempt 0 0 empty_disk ''w'' ''default''
       \<lparr>failed_attempts = 0, last_failed_at = None, locked_until = None\<rparr>"


text \<open>
  The lockout steps of the unlock command on a wrong password: \<open>checkLockout\<close>, then
  \<open>recordFailedAttempt\<close> on the record it returned. Five of them, spaced by the backoff,
  end in a full lock.
\<close>

definition failed_unlock :: "int \<Rightarrow> disk \<Rightarrow> string \<Rightarrow> string \<Rightarrow> disk" where
  "failed_unlock t d walletDir nm =
     (case checkLockout t t d walletDir nm of
        (Inl e, d') \<Rightarrow> d'
      | (Inr r, d') \<Rightarrow> recordFailedAttempt t t d' walletDir nm r)"

definition example_locked_disk :: disk where
  "example_locked_disk =
     failed_unlock 15000 (failed_unlock 7000 (failed_unlock 3000 (failed_unlock 1000
       (failed_unlock 0 empty_disk ''w'' ''default'') ''w'' ''default'') ''w'' ''default'')
       ''w'' ''default'') ''w'' ''default''"


section \<open>Hex and string facts\<close>

lemma hex_digits_all: "list_all (\<lambda>n. hex_value (hex_digit n) = Some n) [0..<16]"
  by code_simp

lemma hex_value_digit: "n < 16 \<Longrightarrow> hex_value (hex_digit n) = Some n"
  using hex_digits_all by (simp add: list_all_iff)

lemma unat_byte_div: "unat (b :: byte) div 16 < 16"
proof -
  have "unat b < 256" using unsigned_less [of b] by simp
  then show ?thesis by simp
qed

lemma fromHex_toHex: "fromHex (toHex bs) = bs"
  by (induction bs) (simp_all add: hex_value_digit unat_byte_div)

lemma toHex_inj: "toHex a = toHex b \<Longrightarrow> a = b"
  by (metis fromHex_toHex)



section \<open>Facts about the primitives\<close>

lemma aead_correctD:
  "aead_correct P \<Longrightarrow> aes_gcm_encrypt P key nonce pt = (ct, tag)
     \<Longrightarrow> aes_gcm_decrypt P key nonce tag ct = Inr pt"
  unfolding aead_correct_def
  by (drule spec [of _ key], drule spec [of _ nonce], drule spec [of _ pt]) simp


lemma char_byte_roundtrip: "char_of (unat (word_of_nat (of_char c) :: byte)) = c"
  by (simp add: unat_of_nat)


lemma model_aead_correct: "aead_correct model_primitives"
  by (simp add: aead_correct_def model_primitives_def)



lemma model_base64url_roundtrip: "base64url_roundtrip model_primitives"
  by (simp add: base64url_roundtrip_def model_primitives_def fromHex_toHex)

lemma model_utf8_roundtrip: "utf8_string model_primitives (utf8_bytes model_primitives s) = s"
  by (simp add: model_primitives_def char_byte_roundtrip comp_def)

section \<open>Keystore: round trip and wrong password\<close>

lemma encryptMnemonic_shape:
  assumes "encryptMnemonic P rnd_salt rnd_iv mnemonic password = (kp, cp)"
    and "aes_gcm_encrypt P (argon2id P password rnd_salt DEFAULT_time_cost DEFAULT_memory_cost
           DEFAULT_parallelism) rnd_iv (utf8_bytes P mnemonic) = (ct, tag)"
  shows "kp = \<lparr>kdf_algorithm = ''argon2id'', time_cost = DEFAULT_time_cost,
      memory_cost = DEFAULT_memory_cost, parallelism = DEFAULT_parallelism, salt = toHex rnd_salt\<rparr>
    \<and> cp = \<lparr>algorithm = ''aes-256-gcm'', iv = toHex rnd_iv, auth_tag = toHex tag,
      ciphertext = toHex ct\<rparr>"
  using assms
  by (simp add: encryptMnemonic_def deriveKeyFromPassword_def encryptAesGcm_def Let_def)

lemma decryptMnemonic_encryptMnemonic:
  assumes "aead_correct P" and "utf8_string P (utf8_bytes P mnemonic) = mnemonic"
    and "encryptMnemonic P rnd_salt rnd_iv mnemonic password = (kp, cp)"
  shows "decryptMnemonic P kp cp password = Inr mnemonic"
proof -
  let ?k = "argon2id P password rnd_salt DEFAULT_time_cost DEFAULT_memory_cost DEFAULT_parallelism"
  obtain ct tag where enc: "aes_gcm_encrypt P ?k rnd_iv (utf8_bytes P mnemonic) = (ct, tag)"
    by (cases "aes_gcm_encrypt P ?k rnd_iv (utf8_bytes P mnemonic)")
  from assms(1) enc have dec: "aes_gcm_decrypt P ?k rnd_iv tag ct = Inr (utf8_bytes P mnemonic)"
    by (rule aead_correctD)
  from encryptMnemonic_shape [OF assms(3) enc] show ?thesis
    by (simp add: decryptMnemonic_def deriveKeyFromPassword_def decryptAesGcm_def
        fromHex_toHex dec assms(2))
qed


lemma createKeystore_success:
  assumes "createKeystore P rnd_salt rnd_iv now d walletDir nm mnemonic password = (Inr ks, d')"
  shows "keystore_files d' (getKeystorePath walletDir nm) = Some ks
    \<and> encryptMnemonic P rnd_salt rnd_iv mnemonic password = (kdf ks, ks_cipher ks)"
  using assms
  by (auto simp add: createKeystore_def Let_def writeFile_def
      split: if_splits prod.splits sum.splits)

lemma createKeystore_total:
  assumes "\<not> fileExists (keystore_files d) (getKeystorePath walletDir nm)"
    and "deriveAddresses P mnemonic 0 = Inr addrs"
  shows "\<exists>ks d'. createKeystore P rnd_salt rnd_iv now d walletDir nm mnemonic password = (Inr ks, d')"
  using assms
  by (cases addrs) (simp add: createKeystore_def Let_def split: prod.splits)

text \<open>
  C8 (keystore round trip). For every mnemonic and password: when no keystore of that name
  exists and the addresses can be derived, \<open>createKeystore\<close> succeeds, and \<open>decryptKeystore\<close>
  on the resulting disk with the same password returns the mnemonic. The cipher is assumed
  to decrypt what it sealed, and the mnemonic to survive the UTF-8 codec (it is well-formed
  text).
\<close>

theorem keystore_roundtrip:
  assumes "aead_correct P"
    and "utf8_string P (utf8_bytes P mnemonic) = mnemonic"
    and "\<not> fileExists (keystore_files d) (getKeystorePath walletDir nm)"
    and "deriveAddresses P mnemonic 0 = Inr addrs"
  shows "\<exists>ks d'. createKeystore P rnd_salt rnd_iv now d walletDir nm mnemonic password = (Inr ks, d')
           \<and> decryptKeystore P d' walletDir nm password = Inr mnemonic"
proof -
  from createKeystore_total [OF assms(3,4)] obtain ks d' where
    c: "createKeystore P rnd_salt rnd_iv now d walletDir nm mnemonic password = (Inr ks, d')"
    by blast
  from createKeystore_success [OF c] have
    f: "keystore_files d' (getKeystorePath walletDir nm) = Some ks"
    and e: "encryptMnemonic P rnd_salt rnd_iv mnemonic password = (kdf ks, ks_cipher ks)"
    by simp_all
  from decryptMnemonic_encryptMnemonic [OF assms(1,2) e]
  have "decryptKeystore P d' walletDir nm password = Inr mnemonic"
    by (simp add: decryptKeystore_def readKeystore_def f)
  with c show ?thesis by blast
qed

theorem keystore_roundtrip_witness:
  "\<exists>ks d'. createKeystore model_primitives [1, 2] [3] 1000 empty_disk ''w'' ''default''
              ''abandon about'' ''P1'' = (Inr ks, d')
           \<and> decryptKeystore model_primitives d' ''w'' ''default'' ''P1'' = Inr ''abandon about''"
  using keystore_roundtrip [of model_primitives "''abandon about''" empty_disk "''w''" "''default''"
      "(''0x00'', ''1111'')" "[1, 2]" "[3]" 1000 "''P1''", OF model_aead_correct model_utf8_roundtrip]
  by (simp add: fileExists_def empty_disk_def deriveAddresses_def model_primitives_def)



text \<open>
  The wrong-password outcome arises only in the \<open>catch\<close> around \<open>decryptMnemonic\<close>, from an
  \<open>Error\<close> whose message contains \<open>Unsupported state\<close> or \<open>auth\<close>.
\<close>

lemma wrong_password_only_from_cipher:
  assumes "decryptKeystore P d walletDir nm password = Inl (WalletError ERR_WRONG_PASSWORD)"
  shows "\<exists>ks msg. readKeystore d walletDir nm = Inr ks
           \<and> decryptMnemonic P (kdf ks) (ks_cipher ks) password = Inl (Error msg)
           \<and> (str_includes msg ''Unsupported state'' \<or> str_includes msg ''auth'')"
  using assms
  by (auto simp add: decryptKeystore_def readKeystore_def decryptMnemonic_def decryptAesGcm_def
      Let_def split: sum.splits error.splits if_splits option.splits prod.splits)

section \<open>Sessions\<close>

lemma createSession_files:
  "session_files (snd (createSession P tokenId tokenSecret rnd_salt rnd_iv now d walletDir
      walletName mnemonic duration)) (getSessionPath walletDir walletName)
    = Some \<lparr>version = 1, wallet_name = walletName, token_id = toHex tokenId,
            hmac = toHex (hmacSha256 P tokenSecret tokenId), hkdf_salt = toHex rnd_salt,
            cipher = encryptAesGcm P rnd_iv (utf8_bytes P mnemonic)
                       (deriveHkdfKey P tokenSecret rnd_salt HKDF_INFO),
            created_at = now,
            expires_at = now + min (case duration of None \<Rightarrow> DEFAULT_DURATION | Some x \<Rightarrow> x)
                                   MAX_DURATION * 1000\<rparr>"
  by (simp add: createSession_def Let_def writeFile_def)

lemma createSession_token:
  "fst (createSession P tokenId tokenSecret rnd_salt rnd_iv now d walletDir walletName mnemonic
      duration) = encodeToken P tokenId tokenSecret"
  by (simp add: createSession_def Let_def)


lemma decodeToken_encodeToken:
  assumes "base64url_roundtrip P" and "length tokenId = 16" and "length tokenSecret = 32"
  shows "decodeToken P (encodeToken P tokenId tokenSecret) = Inr (tokenId, tokenSecret)"
  using assms
  by (simp add: decodeToken_def encodeToken_def startsWith_def TOKEN_PREFIX_def
      TOKEN_ID_SIZE_def TOKEN_SECRET_SIZE_def base64url_roundtrip_def)

text \<open>
  C9 (session lifetime). The session record \<open>createSession\<close> writes has \<open>created_at\<close> equal
  to the clock reading and \<open>expires_at\<close> equal to \<open>created_at\<close> plus
  \<open>min(duration, 86400)\<close> seconds when a duration is given, plus 3600 seconds when it is
  not (timestamps are in milliseconds).
\<close>

theorem session_lifetime:
  "(\<exists>r. session_files (snd (createSession P tokenId tokenSecret rnd_salt rnd_iv now d walletDir
            walletName mnemonic (Some dur))) (getSessionPath walletDir walletName) = Some r
        \<and> created_at r = now \<and> expires_at r = created_at r + 1000 * min dur 86400)
   \<and> (\<exists>r. session_files (snd (createSession P tokenId tokenSecret rnd_salt rnd_iv now d walletDir
            walletName mnemonic None)) (getSessionPath walletDir walletName) = Some r
        \<and> created_at r = now \<and> expires_at r = created_at r + 1000 * 3600)"
  by (simp add: createSession_files DEFAULT_DURATION_def MAX_DURATION_def)




lemma validateSession_unexpired:
  assumes "session_files d (getSessionPath walletDir walletName) = Some r"
    and "\<not> now > expires_at r"
  shows "validateSession P now d walletDir walletName token =
     (case decodeToken P token of
        Inl e \<Rightarrow> (Inl e, d)
      | Inr (tokenId, tokenSecret) \<Rightarrow>
          if toHex tokenId \<noteq> token_id r then (Inl (WalletError ERR_SESSION_INVALID), d)
          else if toHex (hmacSha256 P tokenSecret tokenId) \<noteq> hmac r
          then (Inl (WalletError ERR_SESSION_INVALID), d)
          else (case decryptAesGcm P (cipher r)
                       (deriveHkdfKey P tokenSecret (fromHex (hkdf_salt r)) HKDF_INFO) of
                  Inl e \<Rightarrow> (Inl e, d)
                | Inr mnemonicBuf \<Rightarrow> (Inr (utf8_string P mnemonicBuf), d)))"
  using assms by (simp add: validateSession_def Let_def split: sum.splits prod.splits)







lemma validateSession_absent:
  assumes "session_files d (getSessionPath walletDir walletName) = None"
  shows "validateSession P now d walletDir walletName token
           = (Inl (WalletError ERR_SESSION_NOT_FOUND), d)"
  using assms by (simp add: validateSession_def)

lemma validateSession_expired:
  assumes "session_files d (getSessionPath walletDir walletName) = Some r"
    and "now > expires_at r"
  shows "validateSession P now d walletDir walletName token
           = (Inl (WalletError ERR_SESSION_EXPIRED), revokeSession d walletDir walletName)"
  using assms by (simp add: validateSession_def)


lemma decodeToken_malformed:
  assumes "\<not> startsWith token TOKEN_PREFIX
     \<or> length (from_base64url P (drop (length TOKEN_PREFIX) token))
          \<noteq> TOKEN_ID_SIZE + TOKEN_SECRET_SIZE"
  shows "decodeToken P token = Inl (WalletError ERR_SESSION_INVALID)"
  using assms by (auto simp add: decodeToken_def Let_def)

text \<open>
  C3 (malformed token), as the code has it. \<open>validateSession\<close> looks for the session file
  and checks its expiry before it decodes the token. For every token with a wrong prefix, or
  whose decoded payload is not 16 + 32 bytes long, the outcome is \<open>ERR_SESSION_INVALID\<close>
  when the record is present and not expired; with no record it is
  \<open>ERR_SESSION_NOT_FOUND\<close>, and with an expired record \<open>ERR_SESSION_EXPIRED\<close> (the record
  being deleted).
\<close>

theorem malformed_token_outcome:
  assumes "\<not> startsWith token TOKEN_PREFIX
     \<or> length (from_base64url P (drop (length TOKEN_PREFIX) token))
          \<noteq> TOKEN_ID_SIZE + TOKEN_SECRET_SIZE"
  shows "validateSession P now d walletDir walletName token =
     (case session_files d (getSessionPath walletDir walletName) of
        None \<Rightarrow> (Inl (WalletError ERR_SESSION_NOT_FOUND), d)
      | Some r \<Rightarrow>
          if now > expires_at r
          then (Inl (WalletError ERR_SESSION_EXPIRED), revokeSession d walletDir walletName)
          else (Inl (WalletError ERR_SESSION_INVALID), d))"
proof (cases "session_files d (getSessionPath walletDir walletName)")
  case None
  then show ?thesis by (simp add: validateSession_absent)
next
  case (Some r)
  show ?thesis
  proof (cases "now > expires_at r")
    case True
    with Some show ?thesis by (simp add: validateSession_expired)
  next
    case False
    with Some show ?thesis
      by (simp add: validateSession_unexpired decodeToken_malformed [OF assms])
  qed
qed

theorem malformed_token_outcome_witness:
  "validateSession model_primitives 1000 (snd example_session) ''w'' ''default'' ''wlt_invalid''
     = (Inl (WalletError ERR_SESSION_INVALID), snd example_session)"
proof -
  have m: "\<not> startsWith ''wlt_invalid'' TOKEN_PREFIX
     \<or> length (from_base64url model_primitives (drop (length TOKEN_PREFIX) ''wlt_invalid''))
          \<noteq> TOKEN_ID_SIZE + TOKEN_SECRET_SIZE"
    by (simp add: TOKEN_PREFIX_def TOKEN_ID_SIZE_def TOKEN_SECRET_SIZE_def model_primitives_def
        hex_value_def)
  from malformed_token_outcome [OF m, of 1000 "snd example_session" "''w''" "''default''"]
  show ?thesis
    by (simp add: example_session_def createSession_files MAX_DURATION_def)
qed

text \<open>
  With no session file, the malformed token \<open>bad\<close> is answered with
  \<open>ERR_SESSION_NOT_FOUND\<close>, not with \<open>ERR_SESSION_INVALID\<close>.
\<close>

theorem malformed_token_counterexample:
  "\<not> startsWith ''bad'' TOKEN_PREFIX
   \<and> fst (validateSession model_primitives 0 empty_disk ''w'' ''default'' ''bad'')
       = Inl (WalletError ERR_SESSION_NOT_FOUND)"
  by (simp add: startsWith_def TOKEN_PREFIX_def validateSession_def empty_disk_def)

text \<open>
  C10 (one session per wallet), as the code has it. The session file's path depends on the
  wallet name only, and \<open>createSession\<close> writes it whatever was there before, so the wallet
  has the new record alone. A token issued earlier, whose token-id differs from the stored
  one, is then refused with \<open>ERR_SESSION_INVALID\<close> for as long as the new record has not
  expired.
\<close>

theorem stale_token_invalid:
  assumes "base64url_roundtrip P"
    and "length oldId = 16" and "length oldSecret = 32"
    and "oldId \<noteq> tokenId"
    and "createSession P tokenId tokenSecret rnd_salt rnd_iv now d walletDir walletName mnemonic
           duration = (token, d')"
    and "now' \<le> now + min (case duration of None \<Rightarrow> DEFAULT_DURATION | Some x \<Rightarrow> x)
                           MAX_DURATION * 1000"
  shows "(\<exists>r. session_files d' (getSessionPath walletDir walletName) = Some r
            \<and> token_id r = toHex tokenId \<and> now' \<le> expires_at r)
       \<and> validateSession P now' d' walletDir walletName (encodeToken P oldId oldSecret)
           = (Inl (WalletError ERR_SESSION_INVALID), d')"
proof -
  from assms(5) have d': "d' = snd (createSession P tokenId tokenSecret rnd_salt rnd_iv now d
      walletDir walletName mnemonic duration)" by simp
  let ?r = "\<lparr>version = 1, wallet_name = walletName, token_id = toHex tokenId,
            hmac = toHex (hmacSha256 P tokenSecret tokenId), hkdf_salt = toHex rnd_salt,
            cipher = encryptAesGcm P rnd_iv (utf8_bytes P mnemonic)
                       (deriveHkdfKey P tokenSecret rnd_salt HKDF_INFO),
            created_at = now,
            expires_at = now + min (case duration of None \<Rightarrow> DEFAULT_DURATION | Some x \<Rightarrow> x)
                                   MAX_DURATION * 1000\<rparr>"
  have f: "session_files d' (getSessionPath walletDir walletName) = Some ?r"
    unfolding d' by (rule createSession_files)
  have u: "\<not> now' > expires_at ?r" using assms(6) by simp
  from assms(4) have ne: "toHex oldId \<noteq> toHex tokenId"
    using toHex_inj by blast
  have v: "validateSession P now' d' walletDir walletName (encodeToken P oldId oldSecret)
           = (Inl (WalletError ERR_SESSION_INVALID), d')"
    unfolding validateSession_unexpired [OF f u] decodeToken_encodeToken [OF assms(1,2,3)]
    using ne by simp
  from f u v show ?thesis by simp
qed


lemma example_session_created:
  "createSession model_primitives (replicate 16 1) (replicate 32 2) [3] [4] 0
       (snd example_earlier) ''w'' ''default'' ''abandon about'' (Some 60)
     = (encodeToken model_primitives (replicate 16 1) (replicate 32 2), snd example_session)"
  by (simp add: prod_eq_iff example_session_def createSession_token)

lemma example_earlier_token:
  "fst example_earlier = encodeToken model_primitives (replicate 16 9) (replicate 32 8)"
  by (simp add: example_earlier_def createSession_token)

lemma example_session_file:
  "session_files (snd example_session) (getSessionPath ''w'' ''default'') =
      Some \<lparr>version = 1, wallet_name = ''default'', token_id = toHex (replicate 16 1),
              hmac = toHex (hmacSha256 model_primitives (replicate 32 2) (replicate 16 1)),
              hkdf_salt = toHex [3],
              cipher = encryptAesGcm model_primitives [4] (utf8_bytes model_primitives ''abandon about'')
                         (deriveHkdfKey model_primitives (replicate 32 2) [3] HKDF_INFO),
              created_at = 0, expires_at = 60000\<rparr>"
  by (simp add: example_session_def createSession_files MAX_DURATION_def)

theorem stale_token_invalid_witness:
  "validateSession model_primitives 1000 (snd example_session) ''w'' ''default''
      (fst example_earlier)
    = (Inl (WalletError ERR_SESSION_INVALID), snd example_session)"
  unfolding example_earlier_token
  using stale_token_invalid [where d' = "snd example_session" and now' = 1000
      and oldId = "replicate 16 9" and oldSecret = "replicate 32 8",
      OF model_base64url_roundtrip _ _ _ example_session_created]
  by (simp add: MAX_DURATION_def)

text \<open>
  Once the new record has expired, the earlier token is answered with
  \<open>ERR_SESSION_EXPIRED\<close>: here a first session was issued, a second one overwrote its
  record with another token-id, the record expires at 60000 and the clock reads 60001.
\<close>

theorem stale_token_counterexample:
  "map_option token_id (session_files (snd example_earlier) (getSessionPath ''w'' ''default''))
     = Some (toHex (replicate 16 9))
   \<and> map_option token_id (session_files (snd example_session) (getSessionPath ''w'' ''default''))
     = Some (toHex (replicate 16 1))
   \<and> toHex (replicate 16 (9 :: byte)) \<noteq> toHex (replicate 16 1)
   \<and> fst (validateSession model_primitives 60001 (snd example_session) ''w'' ''default''
            (fst example_earlier))
       = Inl (WalletError ERR_SESSION_EXPIRED)"
proof -
  have a: "map_option token_id (session_files (snd example_earlier)
             (getSessionPath ''w'' ''default'')) = Some (toHex (replicate 16 9))"
    by (simp add: example_earlier_def createSession_files)
  have "replicate 16 (9 :: byte) \<noteq> replicate 16 1" by simp
  then have b: "toHex (replicate 16 (9 :: byte)) \<noteq> toHex (replicate 16 1)"
    using toHex_inj by blast
  have c: "fst (validateSession model_primitives 60001 (snd example_session) ''w'' ''default''
            (fst example_earlier))
       = Inl (WalletError ERR_SESSION_EXPIRED)"
    by (simp add: validateSession_expired [OF example_session_file])
  from a b c example_session_file show ?thesis by simp
qed

section \<open>Failures and the disk\<close>






lemma example_lockout_file:
  "lockout_files example_lockout_disk (getLockoutPath ''w'' ''default'')
     = Some \<lparr>failed_attempts = 1, last_failed_at = Some 0, locked_until = None\<rparr>"
  by (simp add: example_lockout_disk_def recordFailedAttempt_def writeLockoutRecord_def
      writeFile_def Let_def MAX_FAILED_ATTEMPTS_def)


section \<open>Lockout guard\<close>

lemma readLockoutRecord_wf:
  "lockout_inv d \<Longrightarrow> lockout_wf (readLockoutRecord d walletDir nm)"
  by (auto simp add: lockout_inv_def readLockoutRecord_def lockout_wf_def split: option.splits)

lemma writeLockoutRecord_inv:
  "lockout_inv d \<Longrightarrow> lockout_wf r \<Longrightarrow> lockout_inv (writeLockoutRecord d walletDir nm r)"
  by (simp add: lockout_inv_def writeLockoutRecord_def writeFile_def)

lemma checkLockout_inv:
  assumes "lockout_inv d" and "checkLockout now1 now2 d walletDir nm = (res, d')"
  shows "lockout_inv d'"
proof -
  let ?r1 = "(readLockoutRecord d walletDir nm)\<lparr>failed_attempts := 0, last_failed_at := None,
                locked_until := None\<rparr>"
  have "lockout_wf ?r1" by (simp add: lockout_wf_def)
  with assms(1) have w: "lockout_inv (writeLockoutRecord d walletDir nm ?r1)"
    by (rule writeLockoutRecord_inv)
  from assms(2) have "d' = d \<or> d' = writeLockoutRecord d walletDir nm ?r1"
    by (auto simp add: checkLockout_def Let_def split: option.splits if_splits)
  with assms(1) w show ?thesis by auto
qed

lemma checkLockout_returns:
  assumes "lockout_inv d" and "checkLockout now1 now2 d walletDir nm = (Inr r, d')"
  shows "locked_until r = None \<and> lockout_wf r"
proof -
  from assms(1) have "lockout_wf (readLockoutRecord d walletDir nm)"
    by (rule readLockoutRecord_wf)
  with assms(2) show ?thesis
    by (auto simp add: checkLockout_def Let_def lockout_wf_def split: option.splits if_splits)
qed

lemma recordFailedAttempt_inv:
  assumes "lockout_inv d" and "locked_until r = None"
  shows "lockout_inv (recordFailedAttempt t_fail t_lock d walletDir nm r)"
  unfolding recordFailedAttempt_def Let_def
  using assms by (intro writeLockoutRecord_inv) (simp_all add: lockout_wf_def)

lemma recordSuccess_inv:
  "lockout_inv d \<Longrightarrow> lockout_inv (recordSuccess d walletDir nm)"
  by (simp add: lockout_inv_def recordSuccess_def Let_def unlink_def)

lemma lockout_reachable_inv:
  "lockout_reachable walletDir d \<Longrightarrow> lockout_inv d"
proof (induction rule: lockout_reachable.induct)
  case (fresh d)
  then show ?case by (simp add: lockout_inv_def)
next
  case (checked d now1 now2 nm res d')
  then show ?case using checkLockout_inv by blast
next
  case (failed d now1 now2 nm r d' t_fail t_lock)
  from failed.IH failed.hyps(2) have "lockout_inv d'" by (rule checkLockout_inv)
  moreover from failed.IH failed.hyps(2) have "locked_until r = None"
    using checkLockout_returns by blast
  ultimately show ?case by (rule recordFailedAttempt_inv)
next
  case (succeeded d nm)
  then show ?case by (simp add: recordSuccess_inv)
next
  case (other d d')
  then show ?case by (simp add: lockout_inv_def)
qed


lemma failed_unlock_reachable:
  assumes "lockout_reachable walletDir d"
  shows "lockout_reachable walletDir (failed_unlock t d walletDir nm)"
proof (cases "checkLockout t t d walletDir nm")
  case (Pair res d')
  show ?thesis
  proof (cases res)
    case (Inl e)
    with Pair assms show ?thesis
      by (auto simp add: failed_unlock_def intro: lockout_reachable.checked)
  next
    case (Inr r)
    with Pair assms show ?thesis
      by (auto simp add: failed_unlock_def intro: lockout_reachable.failed)
  qed
qed

lemma recordFailedAttempt_file:
  "lockout_files (recordFailedAttempt t_fail t_lock d walletDir nm r) (getLockoutPath walletDir nm)
     = Some \<lparr>failed_attempts = failed_attempts r + 1, last_failed_at = Some t_fail,
             locked_until = (if failed_attempts r + 1 \<ge> 5 then Some (t_lock + 15 * 60 * 1000)
                             else locked_until r)\<rparr>"
  by (simp add: recordFailedAttempt_def writeLockoutRecord_def writeFile_def Let_def
      MAX_FAILED_ATTEMPTS_def LOCKOUT_DURATION_MS_def)

lemma recordSuccess_file:
  "lockout_files (recordSuccess d walletDir nm) (getLockoutPath walletDir nm) = None"
  by (simp add: recordSuccess_def Let_def fileExists_def unlink_def)

text \<open>
  C6 (lockout state machine). \<open>recordFailedAttempt\<close> persists the record it was given with
  the counter raised by one, \<open>last_failed_at\<close> set to the clock, and \<open>locked_until\<close> set to
  15 minutes after the clock exactly when the new counter has reached 5 (it is left as
  it was otherwise). \<open>recordSuccess\<close> leaves no lockout file for the wallet, whatever was
  there. Hence in every reachable lockout file a set \<open>locked_until\<close> comes with a counter
  of at least 5.
\<close>

theorem lockout_state_machine:
  "lockout_files (recordFailedAttempt t_fail t_lock d walletDir nm r) (getLockoutPath walletDir nm)
     = Some \<lparr>failed_attempts = failed_attempts r + 1, last_failed_at = Some t_fail,
             locked_until = (if failed_attempts r + 1 \<ge> 5 then Some (t_lock + 15 * 60 * 1000)
                             else locked_until r)\<rparr>
   \<and> lockout_files (recordSuccess d walletDir nm) (getLockoutPath walletDir nm) = None
   \<and> (lockout_reachable walletDir d \<and> lockout_files d p = Some r' \<and> locked_until r' \<noteq> None
        \<longrightarrow> failed_attempts r' \<ge> 5)"
proof (intro conjI impI)
  assume h: "lockout_reachable walletDir d \<and> lockout_files d p = Some r' \<and> locked_until r' \<noteq> None"
  then have "lockout_inv d" using lockout_reachable_inv by blast
  with h have "lockout_wf r'" unfolding lockout_inv_def by blast
  with h show "failed_attempts r' \<ge> 5" by (simp add: lockout_wf_def MAX_FAILED_ATTEMPTS_def)
qed (rule recordFailedAttempt_file recordSuccess_file)+

lemma checkLockout_empty:
  "lockout_files d (getLockoutPath walletDir nm) = None \<Longrightarrow>
   checkLockout now1 now2 d walletDir nm
     = (Inr \<lparr>failed_attempts = 0, last_failed_at = None, locked_until = None\<rparr>, d)"
  by (simp add: checkLockout_def readLockoutRecord_def)

lemma checkLockout_backoff:
  assumes "lockout_files d (getLockoutPath walletDir nm) = Some r"
    and "locked_until r = None" and "last_failed_at r = Some t" and "0 < failed_attempts r"
  shows "checkLockout now1 now2 d walletDir nm =
     (if now2 < t + 1000 * 2 ^ (failed_attempts r - 1)
      then (Inl (WalletError ERR_WALLET_LOCKED), d) else (Inr r, d))"
  using assms by (simp add: checkLockout_def readLockoutRecord_def Let_def BASE_DELAY_MS_def)

lemma example_locked_file:
  "lockout_files example_locked_disk (getLockoutPath ''w'' ''default'')
     = Some \<lparr>failed_attempts = 5, last_failed_at = Some 15000, locked_until = Some 915000\<rparr>"
proof -
  let ?p = "getLockoutPath ''w'' ''default''"
  let ?d1 = "failed_unlock 0 empty_disk ''w'' ''default''"
  let ?d2 = "failed_unlock 1000 ?d1 ''w'' ''default''"
  let ?d3 = "failed_unlock 3000 ?d2 ''w'' ''default''"
  let ?d4 = "failed_unlock 7000 ?d3 ''w'' ''default''"
  have f1: "lockout_files ?d1 ?p
      = Some \<lparr>failed_attempts = 1, last_failed_at = Some 0, locked_until = None\<rparr>"
    by (simp add: failed_unlock_def checkLockout_empty empty_disk_def recordFailedAttempt_file)
  have f2: "lockout_files ?d2 ?p
      = Some \<lparr>failed_attempts = 2, last_failed_at = Some 1000, locked_until = None\<rparr>"
    by (simp add: failed_unlock_def [of 1000] checkLockout_backoff [OF f1] recordFailedAttempt_file)
  have f3: "lockout_files ?d3 ?p
      = Some \<lparr>failed_attempts = 3, last_failed_at = Some 3000, locked_until = None\<rparr>"
    by (simp add: failed_unlock_def [of 3000] checkLockout_backoff [OF f2] recordFailedAttempt_file)
  have f4: "lockout_files ?d4 ?p
      = Some \<lparr>failed_attempts = 4, last_failed_at = Some 7000, locked_until = None\<rparr>"
    by (simp add: failed_unlock_def [of 7000] checkLockout_backoff [OF f3] recordFailedAttempt_file)
  show ?thesis
    unfolding example_locked_disk_def
    by (simp add: failed_unlock_def [of 15000] checkLockout_backoff [OF f4] recordFailedAttempt_file)
qed

lemma example_locked_reachable: "lockout_reachable ''w'' example_locked_disk"
  unfolding example_locked_disk_def
  by (intro failed_unlock_reachable lockout_reachable.fresh) (simp add: empty_disk_def)

theorem lockout_state_machine_witness:
  "lockout_reachable ''w'' example_locked_disk
   \<and> lockout_files example_locked_disk (getLockoutPath ''w'' ''default'')
       = Some \<lparr>failed_attempts = 5, last_failed_at = Some 15000, locked_until = Some 915000\<rparr>
   \<and> (5 :: nat) \<le> failed_attempts
         \<lparr>failed_attempts = 5, last_failed_at = Some 15000, locked_until = Some 915000\<rparr>"
  using lockout_state_machine [THEN conjunct2, THEN conjunct2, THEN mp, OF conjI,
      OF example_locked_reachable conjI, OF example_locked_file]
    example_locked_reachable example_locked_file
  by simp

lemma example_lockout_reachable: "lockout_reachable ''w'' example_lockout_disk"
  unfolding example_lockout_disk_def
  by (rule lockout_reachable.failed [where d = empty_disk and ?now1.0 = 0 and ?now2.0 = 0])
    (simp_all add: lockout_reachable.fresh empty_disk_def checkLockout_empty)

text \<open>
  C7 (backoff timing). For every lockout record the guard can have written, with counter
  \<open>n\<close>, \<open>1 \<le> n < 5\<close>, and no active full lock: \<open>last_failed_at\<close> is set, and
  \<open>checkLockout\<close> fails with \<open>ERR_WALLET_LOCKED\<close> exactly when the clock is strictly before
  \<open>last_failed_at + 1000 * 2^(n-1)\<close> milliseconds, and otherwise returns the record; the
  disk is unchanged either way.
\<close>

theorem backoff_timing:
  assumes "lockout_reachable walletDir d"
    and "lockout_files d (getLockoutPath walletDir nm) = Some r"
    and "1 \<le> failed_attempts r" and "failed_attempts r < 5"
    and "no_active_lock now1 r"
  shows "\<exists>t. last_failed_at r = Some t
           \<and> checkLockout now1 now2 d walletDir nm =
               (if now2 < t + 1000 * 2 ^ (failed_attempts r - 1)
                then (Inl (WalletError ERR_WALLET_LOCKED), d) else (Inr r, d))"
proof -
  from assms(1) have "lockout_inv d" by (rule lockout_reachable_inv)
  with assms(2) have w: "lockout_wf r" unfolding lockout_inv_def by blast
  from w assms(4) have l: "locked_until r = None"
    by (auto simp add: lockout_wf_def MAX_FAILED_ATTEMPTS_def)
  from w assms(3) obtain t where t: "last_failed_at r = Some t"
    by (auto simp add: lockout_wf_def)
  from assms(3) have "0 < failed_attempts r" by simp
  from checkLockout_backoff [OF assms(2) l t this] t show ?thesis by simp
qed

theorem backoff_timing_witness:
  "checkLockout 999 999 example_lockout_disk ''w'' ''default''
     = (Inl (WalletError ERR_WALLET_LOCKED), example_lockout_disk)
   \<and> checkLockout 1000 1000 example_lockout_disk ''w'' ''default''
     = (Inr \<lparr>failed_attempts = 1, last_failed_at = Some 0, locked_until = None\<rparr>,
        example_lockout_disk)"
  using backoff_timing [OF example_lockout_reachable example_lockout_file, of 999 999]
    backoff_timing [OF example_lockout_reachable example_lockout_file, of 1000 1000]
  by (simp add: no_active_lock_def)

end
